theory Spec2Isabelle
  imports Main "HOL-Library.Word" "HOL-Library.Monad_Syntax"
begin

unbundle bit_operations_syntax

section \<open>Error numbers and basic types\<close>

text \<open>
  The endpoints of \<^verbatim>\<open>security/ifc/fs.c\<close> return an \<^verbatim>\<open>ssize_t\<close> and the hooks of
  \<^verbatim>\<open>security/provenance/hooks.c\<close> an \<^verbatim>\<open>int\<close>: a negated Linux error number on
  failure. The error numbers are those of \<^verbatim>\<open>errno-base.h\<close>.
\<close>

definition EPERM :: int where "EPERM = 1"
definition EAGAIN :: int where "EAGAIN = 11"
definition ENOMEM :: int where "ENOMEM = 12"
definition EINVAL :: int where "EINVAL = 22"

type_synonym tag_t = "64 word"
type_synonym pid_t = int
type_synonym addr = nat

section \<open>IFC contexts\<close>

text \<open>
  A label is a bounded collection of tags without duplicates. The six labels of a
  context carry the field names that \<^verbatim>\<open>fs.c\<close> reads (\<^verbatim>\<open>cifc->secrecy_p\<close> and so on).
\<close>

type_synonym ifc_label = "tag_t list"

record ifc_context =
  secrecy :: ifc_label
  integrity :: ifc_label
  secrecy_p :: ifc_label
  integrity_p :: ifc_label
  secrecy_n :: ifc_label
  integrity_n :: ifc_label

text \<open>
  \<^verbatim>\<open>msg->tag_type\<close> and \<^verbatim>\<open>msg->op\<close> are integers read from the caller's buffer without
  validation: \<open>IFC_TYPE_OTHER\<close> and \<open>IFC_OP_OTHER\<close> stand for the values that are none of
  the named constants. \<^verbatim>\<open>fs.c\<close> names only \<open>IFC_ADD_TAG\<close>; every other operation takes the
  \<^verbatim>\<open>else\<close> branch of \<^verbatim>\<open>ifc_write_self\<close>, the removal.
\<close>

datatype ifc_tag_type =
    IFC_SECRECY | IFC_INTEGRITY
  | IFC_SECRECY_P | IFC_INTEGRITY_P
  | IFC_SECRECY_N | IFC_INTEGRITY_N
  | IFC_TYPE_OTHER nat

datatype ifc_op = IFC_ADD_TAG | IFC_REMOVE_TAG | IFC_OP_OTHER nat

record ifc_tag_msg =
  op :: ifc_op
  tag_type :: ifc_tag_type
  tag :: tag_t
  pid :: pid_t

definition empty_context :: ifc_context where
  "empty_context = \<lparr>secrecy = [], integrity = [], secrecy_p = [], integrity_p = [],
     secrecy_n = [], integrity_n = []\<rparr>"

definition label_of :: "ifc_tag_type \<Rightarrow> ifc_context \<Rightarrow> ifc_label" where
  "label_of k c =
     (case k of
        IFC_SECRECY \<Rightarrow> secrecy c
      | IFC_INTEGRITY \<Rightarrow> integrity c
      | IFC_SECRECY_P \<Rightarrow> secrecy_p c
      | IFC_INTEGRITY_P \<Rightarrow> integrity_p c
      | IFC_SECRECY_N \<Rightarrow> secrecy_n c
      | IFC_INTEGRITY_N \<Rightarrow> integrity_n c
      | IFC_TYPE_OTHER _ \<Rightarrow> [])"

definition set_label :: "ifc_tag_type \<Rightarrow> ifc_label \<Rightarrow> ifc_context \<Rightarrow> ifc_context" where
  "set_label k l c =
     (case k of
        IFC_SECRECY \<Rightarrow> c\<lparr>secrecy := l\<rparr>
      | IFC_INTEGRITY \<Rightarrow> c\<lparr>integrity := l\<rparr>
      | IFC_SECRECY_P \<Rightarrow> c\<lparr>secrecy_p := l\<rparr>
      | IFC_INTEGRITY_P \<Rightarrow> c\<lparr>integrity_p := l\<rparr>
      | IFC_SECRECY_N \<Rightarrow> c\<lparr>secrecy_n := l\<rparr>
      | IFC_INTEGRITY_N \<Rightarrow> c\<lparr>integrity_n := l\<rparr>
      | IFC_TYPE_OTHER _ \<Rightarrow> c)"

text \<open>
  Modelled from the spec: \<^verbatim>\<open>ifc_tag_valid\<close> is declared in \<^verbatim>\<open>linux/ifc.h\<close>, which is not
  among the sources. A tag is valid only if it is not the reserved sentinel, tag 0.
\<close>

definition ifc_tag_valid :: "tag_t \<Rightarrow> bool" where
  "ifc_tag_valid t \<longleftrightarrow> t \<noteq> 0"

text \<open>
  Modelled from the spec: \<^verbatim>\<open>ifc_contains_value\<close> (\<^verbatim>\<open>linux/ifc.h\<close>) is the pure membership
  query of a label.
\<close>

definition ifc_contains_value :: "ifc_label \<Rightarrow> tag_t \<Rightarrow> bool" where
  "ifc_contains_value l t \<longleftrightarrow> t \<in> set l"

text \<open>
  Modelled from the spec: \<^verbatim>\<open>ifc_add_privilege\<close> (\<^verbatim>\<open>linux/ifc.h\<close>) inserts the tag into the
  named label if it is absent. It fails on the sentinel tag (invalid argument) and on
  a full label (resource exhausted), leaving the context as it was. The capacity of a
  label is a constant of the missing header: the parameter \<open>cap\<close>. The result is the
  \<^verbatim>\<open>int\<close> the C function returns, with the context as it is afterwards.
\<close>

definition ifc_add_privilege ::
    "nat \<Rightarrow> ifc_context \<Rightarrow> ifc_tag_type \<Rightarrow> tag_t \<Rightarrow> int \<times> ifc_context" where
  "ifc_add_privilege cap c k t =
     (if \<not> ifc_tag_valid t then (- EINVAL, c)
      else if ifc_contains_value (label_of k c) t then (0, c)
      else if cap \<le> length (label_of k c) then (- ENOMEM, c)
      else (0, set_label k (label_of k c @ [t]) c))"

text \<open>
  Modelled from the spec: \<^verbatim>\<open>ifc_is_labelled\<close> (\<^verbatim>\<open>linux/ifc.h\<close>) is true if any label of
  the context is non-empty. It reads the context through the pointer it is given: on a
  null pointer (\<open>None\<close>) there is no result.
\<close>

definition ifc_is_labelled :: "ifc_context option \<Rightarrow> bool option" where
  "ifc_is_labelled p =
     (case p of
        None \<Rightarrow> None
      | Some c \<Rightarrow> Some (\<not> (secrecy c = [] \<and> integrity c = [] \<and> secrecy_p c = []
          \<and> integrity_p c = [] \<and> secrecy_n c = [] \<and> integrity_n c = [])))"

section \<open>Provenance records\<close>

datatype msg_type =
    MSG_TASK | MSG_INODE | MSG_MSG | MSG_SHM | MSG_SOCK | MSG_SB
  | MSG_FILE_NAME | MSG_ADDR

datatype edge_type =
    ED_FORK | ED_CHANGE | ED_CREATE | ED_WRITE | ED_READ | ED_EXEC | ED_OPEN | ED_MMAP
  | ED_ATTACH | ED_ASSOCIATE | ED_BIND | ED_CONNECT | ED_LISTEN | ED_ACCEPT | ED_NAMED
  | ED_UNKNOWN

text \<open>
  \<^verbatim>\<open>prov_msg_t\<close> is a C union whose members (\<^verbatim>\<open>task_info\<close>, \<^verbatim>\<open>inode_info\<close>,
  \<^verbatim>\<open>msg_msg_info\<close>, \<^verbatim>\<open>shm_info\<close>, \<^verbatim>\<open>sock_info\<close>, \<^verbatim>\<open>sb_info\<close>) share the leading
  \<^verbatim>\<open>node_info\<close> with its \<^verbatim>\<open>node_kern\<close> flags. The record lists the fields
  \<^verbatim>\<open>hooks.c\<close> writes; a node uses the ones of its kind. \<open>ifc_meta\<close> is the place
  \<^verbatim>\<open>prov_record_ifc\<close> imports the tag sets into.
\<close>

record prov_msg =
  msg_kind :: msg_type
  node_id :: nat
  version :: nat
  tracked :: bool
  opaque :: bool
  name_recorded :: bool
  uid :: "32 word"
  gid :: "32 word"
  mode :: "16 word"
  sb_uuid :: "8 word list"
  msg_info_type :: int
  sock_type :: int
  sock_family :: int
  sock_protocol :: int
  ifc_meta :: "ifc_context option"

text \<open>
  \<^verbatim>\<open>long_prov_msg_t\<close>: the auxiliary records \<^verbatim>\<open>hooks.c\<close> fills in, a file name
  (\<^verbatim>\<open>file_name_info.name\<close>, \<^verbatim>\<open>.length\<close>) or a socket address
  (\<^verbatim>\<open>address_info.addr\<close>, \<^verbatim>\<open>.length\<close>).
\<close>

datatype long_prov_msg =
    File_name_info string nat
  | Address_info "8 word list" int

text \<open>
  What the log sink is handed, in order: an edge between two nodes (type, identifier
  of the source node, identifier of the destination node, flow flag), a long record,
  or an edge from a node to a long record.
\<close>

datatype prov_out =
    Edge edge_type nat nat bool
  | Long_record long_prov_msg
  | Long_edge edge_type nat long_prov_msg bool

text \<open>
  The kernel state the hooks work on. \<open>heap\<close> holds the records of
  \<^verbatim>\<open>provenance_cache\<close> that are allocated; a pointer to a record is an \<open>addr option\<close>,
  \<open>None\<close> being \<^verbatim>\<open>NULL\<close>. \<open>alloc_plan\<close> fixes which of the coming allocations fail
  (\<open>False\<close>); once it is used up every allocation succeeds. \<open>sink\<close> is the sequence of
  records handed to the log sink so far, \<open>current_prov\<close> the pointer
  \<^verbatim>\<open>current_provenance()\<close> returns.
\<close>

record kstate =
  heap :: "addr \<rightharpoonup> prov_msg"
  next_addr :: addr
  next_node_id :: nat
  alloc_plan :: "bool list"
  sink :: "prov_out list"
  current_prov :: "addr option"

section \<open>The control plane: \<^verbatim>\<open>security/ifc/fs.c\<close>\<close>

text \<open>
  The state the endpoints see: the calling task with its context (\<^verbatim>\<open>current_ifc()\<close>),
  the other tasks that \<^verbatim>\<open>find_task_by_vpid\<close> finds, each with the \<^verbatim>\<open>ifc\<close> pointer of its
  credential, the counter of the tag authority, and the provenance state.
\<close>

record ifc_sys =
  self_pid :: pid_t
  self_ifc :: ifc_context
  others :: "pid_t \<rightharpoonup> ifc_context option"
  tag_counter :: tag_t
  prov :: kstate

text \<open>
  Constants of the missing header \<^verbatim>\<open>linux/ifc.h\<close>: the capacity of a label and
  \<^verbatim>\<open>sizeof(struct ifc_tag_msg)\<close>.
\<close>

record ifc_config =
  label_cap :: nat
  tag_msg_size :: nat

definition sizeof_tag_t :: nat where
  "sizeof_tag_t = 8"

definition find_task_by_vpid :: "ifc_sys \<Rightarrow> pid_t \<Rightarrow> ifc_context option option" where
  "find_task_by_vpid s p = (if p = self_pid s then Some (Some (self_ifc s)) else others s p)"

definition context_from_pid :: "ifc_sys \<Rightarrow> pid_t \<Rightarrow> ifc_context option" where
  "context_from_pid s p =
     (case find_task_by_vpid s p of
        None \<Rightarrow> None
      | Some dest \<Rightarrow> dest)"

text \<open>
  A write through the pointer \<^verbatim>\<open>context_from_pid\<close> returned: the context of the task
  with that identifier is replaced, the caller's own when the identifier is the
  caller's.
\<close>

definition store_context :: "ifc_sys \<Rightarrow> pid_t \<Rightarrow> ifc_context \<Rightarrow> ifc_sys" where
  "store_context s p c =
     (if p = self_pid s then s\<lparr>self_ifc := c\<rparr> else s\<lparr>others := (others s)(p \<mapsto> Some c)\<rparr>)"

text \<open>
  Modelled from the spec: \<^verbatim>\<open>ifc_create_tag\<close> (\<^verbatim>\<open>linux/ifc.h\<close>) returns a fresh tag from a
  monotonic counter; its only side effect is the increment.
\<close>

definition ifc_create_tag :: "ifc_sys \<Rightarrow> tag_t \<times> ifc_sys" where
  "ifc_create_tag s = (tag_counter s + 1, s\<lparr>tag_counter := tag_counter s + 1\<rparr>)"

text \<open>
  \<^verbatim>\<open>copy_to_user(to, from, n)\<close> returns the number of bytes it could not copy. The
  caller's buffer is described by the number of bytes that can be written to it.
\<close>

definition copy_to_user :: "nat \<Rightarrow> nat \<Rightarrow> nat" where
  "copy_to_user writable n = n - writable"

text \<open>
  \<^verbatim>\<open>ifc_read_tag\<close>, the fresh-tag mint. The result is the return value, the tag the
  caller's buffer received (if any) and the state.
\<close>

definition ifc_read_tag :: "ifc_config \<Rightarrow> nat \<Rightarrow> nat \<Rightarrow> ifc_sys \<Rightarrow> int \<times> tag_t option \<times> ifc_sys" where
  "ifc_read_tag cfg buf count s =
     (if count < sizeof_tag_t then (- ENOMEM, None, s)
      else
        let (t, s1) = ifc_create_tag s;
            (r1, c1) = ifc_add_privilege (label_cap cfg) (self_ifc s1) IFC_SECRECY_P t;
            (r2, c2) = ifc_add_privilege (label_cap cfg) c1 IFC_INTEGRITY_P t;
            (r3, c3) = ifc_add_privilege (label_cap cfg) c2 IFC_SECRECY_N t;
            (r4, c4) = ifc_add_privilege (label_cap cfg) c3 IFC_INTEGRITY_N t;
            rv = (((0 OR r1) OR r2) OR r3) OR r4;
            s2 = s1\<lparr>self_ifc := c4\<rparr>
        in if rv < 0 then (rv, None, s2)
           else if copy_to_user buf sizeof_tag_t \<noteq> 0 then (- EAGAIN, None, s2)
           else (int sizeof_tag_t, Some t, s2))"

text \<open>
  The end of \<^verbatim>\<open>ifc_write_process\<close>: \<^verbatim>\<open>if(!rv) return sizeof(struct ifc_tag_msg); return rv;\<close>
\<close>

definition write_result :: "ifc_config \<Rightarrow> int \<Rightarrow> int" where
  "write_result cfg rv = (if rv = 0 then int (tag_msg_size cfg) else rv)"

text \<open>
  One \<^verbatim>\<open>case\<close> of the switch in \<^verbatim>\<open>ifc_write_process\<close>: the privilege check on the
  caller's label \<open>l\<close>, then the addition to the target's context.
\<close>

definition add_case ::
    "ifc_config \<Rightarrow> ifc_label \<Rightarrow> ifc_context \<Rightarrow> ifc_tag_type \<Rightarrow> ifc_tag_msg \<Rightarrow> ifc_sys \<Rightarrow> int \<times> ifc_sys" where
  "add_case cfg l oifc k msg s =
     (if \<not> ifc_contains_value l (tag msg) then (- EPERM, s)
      else
        let (rv, oifc') = ifc_add_privilege (label_cap cfg) oifc k (tag msg)
        in (write_result cfg rv, store_context s (pid msg) oifc'))"

text \<open>
  \<^verbatim>\<open>ifc_write_process\<close>, the cross-process tag mutation. \<^verbatim>\<open>rv\<close> starts as \<^verbatim>\<open>-EINVAL\<close>
  and stays so when the operation is not \<open>IFC_ADD_TAG\<close> or when no \<^verbatim>\<open>case\<close> of the
  switch matches the tag type.
\<close>

definition ifc_write_process :: "ifc_config \<Rightarrow> ifc_tag_msg \<Rightarrow> nat \<Rightarrow> ifc_sys \<Rightarrow> int \<times> ifc_sys" where
  "ifc_write_process cfg msg count s =
     (let cifc = self_ifc s in
      if count < tag_msg_size cfg then (- ENOMEM, s)
      else if \<not> ifc_tag_valid (tag msg) then (- EINVAL, s)
      else
        case context_from_pid s (pid msg) of
          None \<Rightarrow> (- EINVAL, s)
        | Some oifc \<Rightarrow>
            if op msg = IFC_ADD_TAG then
              (case tag_type msg of
                 IFC_SECRECY_P \<Rightarrow> add_case cfg (secrecy_p cifc) oifc IFC_SECRECY_P msg s
               | IFC_INTEGRITY_P \<Rightarrow> add_case cfg (integrity_p cifc) oifc IFC_INTEGRITY_P msg s
               | IFC_SECRECY_N \<Rightarrow> add_case cfg (secrecy_n cifc) oifc IFC_SECRECY_N msg s
               | IFC_INTEGRITY_N \<Rightarrow> add_case cfg (integrity_n cifc) oifc IFC_INTEGRITY_N msg s
               | _ \<Rightarrow> (write_result cfg (- EINVAL), s))
            else (write_result cfg (- EINVAL), s))"

text \<open>The privilege variants of the tag kinds.\<close>

definition is_privilege_kind :: "ifc_tag_type \<Rightarrow> bool" where
  "is_privilege_kind k \<longleftrightarrow> k = IFC_SECRECY_P \<or> k = IFC_INTEGRITY_P \<or> k = IFC_SECRECY_N \<or> k = IFC_INTEGRITY_N"

section \<open>Host objects\<close>

text \<open>
  The host structures, with the fields \<^verbatim>\<open>hooks.c\<close> reads and writes. A hook receives
  its objects by value and returns the ones it changed; the provenance records they
  point to live in the heap of the state. \<open>cred_ifc\<close>, \<open>i_ifc\<close>, \<open>msg_ifc\<close> and \<open>shm_ifc\<close>
  are the \<^verbatim>\<open>struct ifc_struct *\<close> pointers, holding the context \<^verbatim>\<open>ifc->context\<close>.
\<close>

datatype gfp_t = GFP_KERNEL | GFP_ATOMIC

record cred =
  euid :: "32 word"
  egid :: "32 word"
  cred_provenance :: "addr option"
  cred_ifc :: "ifc_context option"

record super_block =
  s_uuid :: "8 word list"
  s_provenance :: "addr option"

record inode =
  i_ino :: nat
  i_uid :: "32 word"
  i_gid :: "32 word"
  i_mode :: "16 word"
  i_private :: bool
  i_sb :: super_block
  i_provenance :: "addr option"
  i_ifc :: "ifc_context option"

record struct_file =
  f_inode :: inode
  f_path :: string

record msg_msg =
  m_type :: int
  msg_provenance :: "addr option"
  msg_ifc :: "ifc_context option"

record shmid_kernel =
  shm_perm_mode :: "16 word"
  shm_provenance :: "addr option"
  shm_ifc :: "ifc_context option"

record sock =
  sk_provenance :: "addr option"


record task_struct =
  task_cred :: cred

record linux_binprm =
  bprm_cred :: cred
  bprm_file :: struct_file

type_synonym msg_queue = unit

definition FLOW_ALLOWED :: bool where "FLOW_ALLOWED = True"
definition NODE_TRACKED :: bool where "NODE_TRACKED = True"
definition NAME_RECORDED :: bool where "NAME_RECORDED = True"


definition PROT_READ :: "64 word" where "PROT_READ = 1"
definition PROT_WRITE :: "64 word" where "PROT_WRITE = 2"
definition PROT_EXEC :: "64 word" where "PROT_EXEC = 4"


definition PATH_MAX :: nat where "PATH_MAX = 4096"

section \<open>Primitives of the provenance layer\<close>

text \<open>
  A hook that reads or writes through a pointer which is null, or which points to no
  allocated record, does not return: its result is \<open>None\<close>. \<open>deref\<close> is the read,
  \<open>update_node\<close> the write.
\<close>

definition deref :: "kstate \<Rightarrow> addr option \<Rightarrow> prov_msg option" where
  "deref s p = (case p of None \<Rightarrow> None | Some a \<Rightarrow> heap s a)"

definition update_node :: "addr option \<Rightarrow> (prov_msg \<Rightarrow> prov_msg) \<Rightarrow> kstate \<Rightarrow> kstate option" where
  "update_node p f s =
     (case p of
        None \<Rightarrow> None
      | Some a \<Rightarrow>
          (case heap s a of
             None \<Rightarrow> None
           | Some n \<Rightarrow> Some (s\<lparr>heap := (heap s)(a \<mapsto> f n)\<rparr>)))"

text \<open>The next allocation: its outcome is the head of \<open>alloc_plan\<close>.\<close>

definition mem_alloc :: "kstate \<Rightarrow> bool \<times> kstate" where
  "mem_alloc s =
     (case alloc_plan s of
        [] \<Rightarrow> (True, s)
      | ok # rest \<Rightarrow> (ok, s\<lparr>alloc_plan := rest\<rparr>))"

definition zero_node :: "msg_type \<Rightarrow> prov_msg" where
  "zero_node ty = \<lparr>msg_kind = ty, node_id = 0, version = 0, tracked = False, opaque = False,
     name_recorded = False, uid = 0, gid = 0, mode = 0, sb_uuid = replicate 16 0,
     msg_info_type = 0, sock_type = 0, sock_family = 0, sock_protocol = 0, ifc_meta = None\<rparr>"

text \<open>
  Modelled from the spec: \<^verbatim>\<open>alloc_provenance\<close> (\<^verbatim>\<open>linux/provenance.h\<close>, not among the
  sources) allocates a zero-initialised record of the given kind, or returns \<^verbatim>\<open>NULL\<close>
  when the allocation fails.
\<close>

definition alloc_provenance :: "msg_type \<Rightarrow> gfp_t \<Rightarrow> kstate \<Rightarrow> addr option \<times> kstate" where
  "alloc_provenance ty gfp_mask s =
     (let (ok, s1) = mem_alloc s
      in if ok
         then (Some (next_addr s1),
               s1\<lparr>heap := (heap s1)(next_addr s1 \<mapsto> zero_node ty), next_addr := Suc (next_addr s1)\<rparr>)
         else (None, s1))"

text \<open>
  Modelled from the spec: \<^verbatim>\<open>free_provenance\<close> (\<^verbatim>\<open>linux/provenance.h\<close>) releases the
  record; on a slot that was never allocated or is already freed it does nothing.
\<close>

definition free_provenance :: "addr option \<Rightarrow> kstate \<Rightarrow> kstate" where
  "free_provenance p s =
     (case p of
        None \<Rightarrow> s
      | Some a \<Rightarrow> s\<lparr>heap := (heap s)(a := None)\<rparr>)"

text \<open>
  Modelled from the spec: \<^verbatim>\<open>set_node_id\<close> (\<^verbatim>\<open>linux/provenance.h\<close>) assigns the node
  identifier, the value the caller supplies or, for \<open>ASSIGN_NODE_ID\<close>, a freshly
  generated one; the generator is a counter.
\<close>

datatype node_id_arg = ASSIGN_NODE_ID | Node_id nat

definition set_node_id :: "addr option \<Rightarrow> node_id_arg \<Rightarrow> kstate \<Rightarrow> kstate option" where
  "set_node_id p nid s =
     (case nid of
        ASSIGN_NODE_ID \<Rightarrow>
          update_node p (\<lambda>n. n\<lparr>node_id := next_node_id s\<rparr>)
            (s\<lparr>next_node_id := Suc (next_node_id s)\<rparr>)
      | Node_id i \<Rightarrow> update_node p (\<lambda>n. n\<lparr>node_id := i\<rparr>) s)"

text \<open>
  Modelled from the spec: \<^verbatim>\<open>prov_record_ifc\<close> (\<^verbatim>\<open>linux/provenance.h\<close>) imports the tag
  sets of the context into the node's metadata, a snapshot.
\<close>

definition prov_record_ifc :: "addr option \<Rightarrow> ifc_context option \<Rightarrow> kstate \<Rightarrow> kstate option" where
  "prov_record_ifc p ctx s =
     (case ctx of
        None \<Rightarrow> None
      | Some c \<Rightarrow> update_node p (\<lambda>n. n\<lparr>ifc_meta := Some c\<rparr>) s)"

text \<open>
  Modelled from the spec: \<^verbatim>\<open>record_edge\<close> (\<^verbatim>\<open>linux/provenance.h\<close>) constructs the edge
  (type, source node identifier, destination node identifier, flow flag) and hands it
  to the log sink. It decides nothing and has no result the caller could read. The
  identifiers are read from the two nodes.
\<close>

definition record_edge ::
    "edge_type \<Rightarrow> addr option \<Rightarrow> addr option \<Rightarrow> bool \<Rightarrow> kstate \<Rightarrow> kstate option" where
  "record_edge ty from to allowed s =
     (case deref s from of
        None \<Rightarrow> None
      | Some f \<Rightarrow>
          (case deref s to of
             None \<Rightarrow> None
           | Some t \<Rightarrow> Some (s\<lparr>sink := sink s @ [Edge ty (node_id f) (node_id t) allowed]\<rparr>)))"

text \<open>
  Modelled from the spec: \<^verbatim>\<open>long_prov_write\<close> hands a long record to the log sink, and
  \<^verbatim>\<open>long_record_edge\<close> an edge from a node to a long record (both
  \<^verbatim>\<open>linux/provenance.h\<close>).
\<close>

definition long_prov_write :: "long_prov_msg \<Rightarrow> kstate \<Rightarrow> kstate" where
  "long_prov_write l s = s\<lparr>sink := sink s @ [Long_record l]\<rparr>"

definition long_record_edge ::
    "edge_type \<Rightarrow> addr option \<Rightarrow> long_prov_msg \<Rightarrow> bool \<Rightarrow> kstate \<Rightarrow> kstate option" where
  "long_record_edge ty from l allowed s =
     (case deref s from of
        None \<Rightarrow> None
      | Some f \<Rightarrow> Some (s\<lparr>sink := sink s @ [Long_edge ty (node_id f) l allowed]\<rparr>))"


text \<open>
  The block \<^verbatim>\<open>if(ifc_is_labelled(&ifc->context)){ tracked=NODE_TRACKED;
  prov_record_ifc(prov, &ifc->context); }\<close> that the allocating hooks share.
\<close>

definition track_if_labelled :: "addr option \<Rightarrow> ifc_context option \<Rightarrow> kstate \<Rightarrow> kstate option" where
  "track_if_labelled p ifc s =
     (case ifc_is_labelled ifc of
        None \<Rightarrow> None
      | Some labelled \<Rightarrow>
          if labelled
          then (case update_node p (\<lambda>n. n\<lparr>tracked := NODE_TRACKED\<rparr>) s of
                  None \<Rightarrow> None
                | Some s1 \<Rightarrow> prov_record_ifc p ifc s1)
          else Some s)"

section \<open>The hooks: \<^verbatim>\<open>security/provenance/hooks.c\<close>\<close>

subsection \<open>Credentials\<close>

definition provenance_cred_alloc_blank :: "cred \<Rightarrow> gfp_t \<Rightarrow> kstate \<Rightarrow> (int \<times> cred \<times> kstate) option" where
  "provenance_cred_alloc_blank cred gfp_mask s =
     (case alloc_provenance MSG_TASK gfp_mask s of
        (None, s1) \<Rightarrow> Some (- ENOMEM, cred, s1)
      | (Some a, s1) \<Rightarrow>
          do {
            s2 \<leftarrow> set_node_id (Some a) ASSIGN_NODE_ID s1;
            s3 \<leftarrow> update_node (Some a) (\<lambda>n. n\<lparr>uid := euid cred, gid := egid cred\<rparr>) s2;
            Some (0, cred\<lparr>cred_provenance := Some a\<rparr>, s3)
          })"

definition provenance_cred_free :: "cred \<Rightarrow> kstate \<Rightarrow> cred \<times> kstate" where
  "provenance_cred_free cred s =
     (cred\<lparr>cred_provenance := None\<rparr>, free_provenance (cred_provenance cred) s)"

definition provenance_cred_prepare ::
    "cred \<Rightarrow> cred \<Rightarrow> gfp_t \<Rightarrow> kstate \<Rightarrow> (int \<times> cred \<times> kstate) option" where
  "provenance_cred_prepare new old gfp_mask s =
     (let old_prov = cred_provenance old in
      case alloc_provenance MSG_TASK gfp_mask s of
        (None, s1) \<Rightarrow> Some (- ENOMEM, new, s1)
      | (Some a, s1) \<Rightarrow>
          do {
            s2 \<leftarrow> set_node_id (Some a) ASSIGN_NODE_ID s1;
            s3 \<leftarrow> update_node (Some a) (\<lambda>n. n\<lparr>uid := euid new, gid := egid new\<rparr>) s2;
            s4 \<leftarrow> track_if_labelled (Some a) (cred_ifc new) s3;
            s5 \<leftarrow> record_edge ED_FORK old_prov (Some a) FLOW_ALLOWED s4;
            Some (0, new\<lparr>cred_provenance := Some a\<rparr>, s5)
          })"

text \<open>\<^verbatim>\<open>*prov=*old_prov;\<close> the whole record of the old credential is copied.\<close>

definition provenance_cred_transfer :: "cred \<Rightarrow> cred \<Rightarrow> kstate \<Rightarrow> kstate option" where
  "provenance_cred_transfer new old s =
     (case deref s (cred_provenance old) of
        None \<Rightarrow> None
      | Some old_node \<Rightarrow> update_node (cred_provenance new) (\<lambda>_. old_node) s)"


subsection \<open>Inodes and files\<close>

text \<open>
  \<^verbatim>\<open>alloc_camflow\<close> and \<^verbatim>\<open>free_camflow\<close> (\<^verbatim>\<open>linux/camflow.h\<close>) manage the container of the
  inode's security pointers. The inode of the model always has its two slots, so they
  leave no trace; \<^verbatim>\<open>inode_set_provenance\<close> and \<^verbatim>\<open>inode_get_provenance\<close> write and read
  \<open>i_provenance\<close>, \<^verbatim>\<open>inode_get_ifc\<close> reads \<open>i_ifc\<close>. The identifier handed to
  \<^verbatim>\<open>set_node_id\<close> is the inode number.
\<close>

definition provenance_inode_alloc_security :: "inode \<Rightarrow> kstate \<Rightarrow> (int \<times> inode \<times> kstate) option" where
  "provenance_inode_alloc_security inode s =
     (let cprov = current_prov s in
      case alloc_provenance MSG_INODE GFP_KERNEL s of
        (None, s1) \<Rightarrow> Some (- ENOMEM, inode, s1)
      | (Some a, s1) \<Rightarrow>
          do {
            s2 \<leftarrow> set_node_id (Some a) (Node_id (i_ino inode)) s1;
            s3 \<leftarrow> update_node (Some a)
                   (\<lambda>n. n\<lparr>uid := i_uid inode, gid := i_gid inode, mode := i_mode inode\<rparr>) s2;
            sprov \<leftarrow> deref s3 (s_provenance (i_sb inode));
            s4 \<leftarrow> update_node (Some a) (\<lambda>n. n\<lparr>sb_uuid := take 16 (sb_uuid sprov)\<rparr>) s3;
            let inode1 = inode\<lparr>i_provenance := Some a\<rparr>;
            s5 \<leftarrow> track_if_labelled (Some a) (i_ifc inode1) s4;
            s6 \<leftarrow> record_edge ED_CREATE cprov (Some a) FLOW_ALLOWED s5;
            Some (0, inode1, s6)
          })"

text \<open>\<^verbatim>\<open>if(!prov) free_provenance(prov);\<close> then the pointer is cleared.\<close>

definition provenance_inode_free_security :: "inode \<Rightarrow> kstate \<Rightarrow> inode \<times> kstate" where
  "provenance_inode_free_security inode s =
     (let prov = i_provenance inode;
          s1 = (if prov = None then free_provenance prov s else s)
      in (inode\<lparr>i_provenance := None\<rparr>, s1))"

text \<open>
  The repair that the permission-style hooks start with:
  \<^verbatim>\<open>if(!inode_get_provenance(inode)) provenance_inode_alloc_security(inode);\<close> The return
  value of the allocation is dropped.
\<close>

definition alloc_if_missing :: "inode \<Rightarrow> kstate \<Rightarrow> (inode \<times> kstate) option" where
  "alloc_if_missing inode s =
     (if i_provenance inode = None
      then map_option snd (provenance_inode_alloc_security inode s)
      else Some (inode, s))"



text \<open>
  \<^verbatim>\<open>provenance_record_file_name\<close>. \<^verbatim>\<open>provenance_is_name_recorded\<close> and
  \<^verbatim>\<open>provenance_is_tracked\<close> read the flags of the node. Neither the buffer of
  \<^verbatim>\<open>kzalloc\<close> nor the long record of \<^verbatim>\<open>alloc_long_provenance\<close> is checked before it is
  written to. \<open>f_path\<close> is the path \<^verbatim>\<open>dentry_path_raw\<close> produces; \<^verbatim>\<open>strlcpy\<close> keeps at
  most \<open>PATH_MAX - 1\<close> characters of it. The long record is freed again before the
  function returns.
\<close>

definition provenance_record_file_name :: "struct_file \<Rightarrow> kstate \<Rightarrow> kstate option" where
  "provenance_record_file_name file s =
     (let iprov = i_provenance (f_inode file) in
      case deref s iprov of
        None \<Rightarrow> None
      | Some n \<Rightarrow>
          if \<not> name_recorded n \<and> tracked n then
            (let (buffer_ok, s1) = mem_alloc s;
                 (fname_ok, s2) = mem_alloc s1
             in if \<not> (buffer_ok \<and> fname_ok) then None
                else
                  (let name = take (PATH_MAX - 1) (f_path file);
                       fname_prov = File_name_info name (length name);
                       s3 = long_prov_write fname_prov s2
                   in do {
                        s4 \<leftarrow> long_record_edge ED_NAMED iprov fname_prov FLOW_ALLOWED s3;
                        update_node iprov (\<lambda>n. n\<lparr>name_recorded := NAME_RECORDED\<rparr>) s4
                      }))
          else Some s)"


definition provenance_file_open :: "struct_file \<Rightarrow> cred \<Rightarrow> kstate \<Rightarrow> (int \<times> struct_file \<times> kstate) option" where
  "provenance_file_open file cred s =
     (let cprov = current_prov s in
      do {
        (inode1, s1) \<leftarrow> alloc_if_missing (f_inode file) s;
        let file1 = file\<lparr>f_inode := inode1\<rparr>;
        s2 \<leftarrow> provenance_record_file_name file1 s1;
        let iprov = i_provenance inode1;
        s3 \<leftarrow> record_edge ED_OPEN iprov cprov FLOW_ALLOWED s2;
        Some (0, file1, s3)
      })"

text \<open>\<^verbatim>\<open>provenance_mmap_file\<close>: \<open>None\<close> for the file is the anonymous mapping.\<close>

definition provenance_mmap_file ::
    "struct_file option \<Rightarrow> 64 word \<Rightarrow> 64 word \<Rightarrow> 64 word \<Rightarrow> kstate \<Rightarrow> (int \<times> kstate) option" where
  "provenance_mmap_file file reqprot prot flags s =
     (let cprov = current_prov s in
      case file of
        None \<Rightarrow> Some (0, s)
      | Some f \<Rightarrow>
          do {
            s1 \<leftarrow> provenance_record_file_name f s;
            let iprov = i_provenance (f_inode f);
            let p = prot AND (PROT_EXEC OR PROT_READ OR PROT_WRITE);
            s2 \<leftarrow> (if p AND (PROT_WRITE OR PROT_EXEC) \<noteq> 0
                   then record_edge ED_MMAP cprov iprov FLOW_ALLOWED s1 else Some s1);
            s3 \<leftarrow> (if p AND (PROT_READ OR PROT_EXEC OR PROT_WRITE) \<noteq> 0
                   then record_edge ED_MMAP iprov cprov FLOW_ALLOWED s2 else Some s2);
            Some (0, s3)
          })"


subsection \<open>Messages and shared memory\<close>

text \<open>
  In the two allocating hooks below the labelled-context block is entered under
  \<^verbatim>\<open>if(!ifc)\<close>, that is, only when the pointer is null.
\<close>

definition provenance_msg_msg_alloc_security :: "msg_msg \<Rightarrow> kstate \<Rightarrow> (int \<times> msg_msg \<times> kstate) option" where
  "provenance_msg_msg_alloc_security msg s =
     (let cprov = current_prov s;
          ifc = msg_ifc msg
      in case alloc_provenance MSG_MSG GFP_KERNEL s of
           (None, s1) \<Rightarrow> Some (- ENOMEM, msg, s1)
         | (Some a, s1) \<Rightarrow>
             do {
               s2 \<leftarrow> set_node_id (Some a) ASSIGN_NODE_ID s1;
               s3 \<leftarrow> update_node (Some a) (\<lambda>n. n\<lparr>msg_info_type := m_type msg\<rparr>) s2;
               s4 \<leftarrow> (if ifc = None then track_if_labelled (Some a) ifc s3 else Some s3);
               let msg1 = msg\<lparr>msg_provenance := Some a\<rparr>;
               s5 \<leftarrow> record_edge ED_CREATE cprov (Some a) FLOW_ALLOWED s4;
               Some (0, msg1, s5)
             })"

definition provenance_msg_msg_free_security :: "msg_msg \<Rightarrow> kstate \<Rightarrow> msg_msg \<times> kstate" where
  "provenance_msg_msg_free_security msg s =
     (let prov = msg_provenance msg
      in (msg\<lparr>msg_provenance := None\<rparr>, free_provenance prov s))"

definition provenance_msg_queue_msgsnd ::
    "msg_queue \<Rightarrow> msg_msg \<Rightarrow> int \<Rightarrow> kstate \<Rightarrow> (int \<times> kstate) option" where
  "provenance_msg_queue_msgsnd msq msg msqflg s =
     (let cprov = current_prov s;
          mprov = msg_provenance msg
      in do {
           s1 \<leftarrow> record_edge ED_WRITE cprov mprov FLOW_ALLOWED s;
           Some (0, s1)
         })"

definition provenance_msg_queue_msgrcv ::
    "msg_queue \<Rightarrow> msg_msg \<Rightarrow> task_struct \<Rightarrow> int \<Rightarrow> int \<Rightarrow> kstate \<Rightarrow> (int \<times> kstate) option" where
  "provenance_msg_queue_msgrcv msq msg target ty md s =
     (let cprov = cred_provenance (task_cred target);
          mprov = msg_provenance msg
      in do {
           s1 \<leftarrow> record_edge ED_READ mprov cprov FLOW_ALLOWED s;
           Some (0, s1)
         })"

definition provenance_shm_alloc_security ::
    "shmid_kernel \<Rightarrow> kstate \<Rightarrow> (int \<times> shmid_kernel \<times> kstate) option" where
  "provenance_shm_alloc_security shp s =
     (let cprov = current_prov s;
          ifc = shm_ifc shp
      in case alloc_provenance MSG_SHM GFP_KERNEL s of
           (None, s1) \<Rightarrow> Some (- ENOMEM, shp, s1)
         | (Some a, s1) \<Rightarrow>
             do {
               s2 \<leftarrow> set_node_id (Some a) ASSIGN_NODE_ID s1;
               s3 \<leftarrow> update_node (Some a) (\<lambda>n. n\<lparr>mode := shm_perm_mode shp\<rparr>) s2;
               s4 \<leftarrow> (if ifc = None then track_if_labelled (Some a) ifc s3 else Some s3);
               let shp1 = shp\<lparr>shm_provenance := Some a\<rparr>;
               s5 \<leftarrow> record_edge ED_ATTACH (Some a) cprov FLOW_ALLOWED s4;
               s6 \<leftarrow> record_edge ED_ATTACH cprov (Some a) FLOW_ALLOWED s5;
               Some (0, shp1, s6)
             })"

definition provenance_shm_free_security :: "shmid_kernel \<Rightarrow> kstate \<Rightarrow> shmid_kernel \<times> kstate" where
  "provenance_shm_free_security shp s =
     (shp\<lparr>shm_provenance := None\<rparr>, free_provenance (shm_provenance shp) s)"


subsection \<open>Sockets\<close>


definition provenance_sk_free_security :: "sock \<Rightarrow> kstate \<Rightarrow> sock \<times> kstate" where
  "provenance_sk_free_security sk0 s =
     (sk0\<lparr>sk_provenance := None\<rparr>, free_provenance (sk_provenance sk0) s)"











subsection \<open>Program execution and superblocks\<close>


definition provenance_bprm_committing_creds :: "linux_binprm \<Rightarrow> kstate \<Rightarrow> kstate option" where
  "provenance_bprm_committing_creds bprm s =
     (let cprov = current_prov s;
          nprov = cred_provenance (bprm_cred bprm);
          iprov = i_provenance (f_inode (bprm_file bprm))
      in do {
           s1 \<leftarrow> record_edge ED_CREATE cprov nprov FLOW_ALLOWED s;
           record_edge ED_CREATE iprov nprov FLOW_ALLOWED s1
         })"


definition provenance_sb_free_security :: "super_block \<Rightarrow> kstate \<Rightarrow> super_block \<times> kstate" where
  "provenance_sb_free_security sb s =
     (sb\<lparr>s_provenance := None\<rparr>, free_provenance (s_provenance sb) s)"



subsection \<open>The table of hooks\<close>






section \<open>Credentials as a system\<close>

text \<open>
  Several credentials, named by numbers, and the three operations of their life cycle
  applied to them by name: the hook is run on the named credentials and the changed
  credential is stored back.
\<close>

record cred_sys =
  creds :: "nat \<rightharpoonup> cred"
  ks :: kstate

datatype cred_op = Alloc_blank nat gfp_t | Prepare nat nat gfp_t | Transfer nat nat

fun cred_step :: "cred_op \<Rightarrow> cred_sys \<Rightarrow> cred_sys option" where
  "cred_step (Alloc_blank i g) cs =
     (case creds cs i of
        None \<Rightarrow> None
      | Some c \<Rightarrow>
          map_option (\<lambda>(rv, c', s'). \<lparr>creds = (creds cs)(i \<mapsto> c'), ks = s'\<rparr>)
            (provenance_cred_alloc_blank c g (ks cs)))"
| "cred_step (Prepare i j g) cs =
     (case (creds cs i, creds cs j) of
        (Some new, Some old) \<Rightarrow>
          map_option (\<lambda>(rv, c', s'). \<lparr>creds = (creds cs)(i \<mapsto> c'), ks = s'\<rparr>)
            (provenance_cred_prepare new old g (ks cs))
      | _ \<Rightarrow> None)"
| "cred_step (Transfer i j) cs =
     (case (creds cs i, creds cs j) of
        (Some new, Some old) \<Rightarrow>
          map_option (\<lambda>s'. cs\<lparr>ks := s'\<rparr>) (provenance_cred_transfer new old (ks cs))
      | _ \<Rightarrow> None)"

fun cred_run :: "cred_op list \<Rightarrow> cred_sys \<Rightarrow> cred_sys option" where
  "cred_run [] cs = Some cs"
| "cred_run (x # xs) cs =
     (case cred_step x cs of
        None \<Rightarrow> None
      | Some cs' \<Rightarrow> cred_run xs cs')"

text \<open>The node identifier of a credential's provenance record, if it has one.\<close>

definition cred_node_id :: "cred_sys \<Rightarrow> nat \<Rightarrow> nat option" where
  "cred_node_id cs i =
     (case creds cs i of
        None \<Rightarrow> None
      | Some c \<Rightarrow> map_option node_id (deref (ks cs) (cred_provenance c)))"

section \<open>Notions used in the properties\<close>






text \<open>
  When a hook returns. A pointer is \<open>live\<close> when it points to an allocated record;
  \<open>live_new\<close> also admits the record that the hook's own allocation creates. A context
  pointer is \<open>labelled\<close> when it points to a context with a non-empty label.
\<close>

definition live :: "kstate \<Rightarrow> addr option \<Rightarrow> bool" where
  "live s p \<longleftrightarrow> deref s p \<noteq> None"

definition live_new :: "kstate \<Rightarrow> addr option \<Rightarrow> bool" where
  "live_new s p \<longleftrightarrow> p = Some (next_addr s) \<or> live s p"

definition labelled :: "ifc_context option \<Rightarrow> bool" where
  "labelled p \<longleftrightarrow> ifc_is_labelled p = Some True"











text \<open>
  The invariant of a system of credentials: every credential's record is allocated,
  below the allocation mark, with an identifier the generator has already passed; and
  the records of two credentials carry different identifiers.
\<close>

definition prov_of :: "cred_sys \<Rightarrow> nat \<Rightarrow> addr option" where
  "prov_of cs i = (case creds cs i of None \<Rightarrow> None | Some c \<Rightarrow> cred_provenance c)"

definition cred_inv :: "cred_sys \<Rightarrow> bool" where
  "cred_inv cs \<longleftrightarrow>
     (\<forall>i a. prov_of cs i = Some a \<longrightarrow>
        a < next_addr (ks cs)
        \<and> (\<exists>n. heap (ks cs) a = Some n \<and> node_id n < next_node_id (ks cs)))
   \<and> (\<forall>i j a b n m. i \<noteq> j \<and> prov_of cs i = Some a \<and> prov_of cs j = Some b
        \<and> heap (ks cs) a = Some n \<and> heap (ks cs) b = Some m \<longrightarrow> node_id n \<noteq> node_id m)"

fun is_transfer :: "cred_op \<Rightarrow> bool" where
  "is_transfer (Transfer i j) = True"
| "is_transfer _ = False"

text \<open>
  What an allocating credential hook does to the credential and the state: nothing
  that matters here when the allocation fails, and otherwise a new record at the
  allocation mark, with the generator's next identifier.
\<close>

definition fresh_effect :: "cred \<Rightarrow> kstate \<Rightarrow> cred \<Rightarrow> kstate \<Rightarrow> bool" where
  "fresh_effect c s c' s' \<longleftrightarrow>
     (c' = c \<and> heap s' = heap s \<and> next_addr s' = next_addr s \<and> next_node_id s' = next_node_id s)
   \<or> (c' = c\<lparr>cred_provenance := Some (next_addr s)\<rparr> \<and> next_addr s' = Suc (next_addr s)
      \<and> next_node_id s' = Suc (next_node_id s)
      \<and> (\<exists>n. heap s' = (heap s)(next_addr s \<mapsto> n) \<and> node_id n = next_node_id s))"

section \<open>Scenarios\<close>

text \<open>
  Concrete states of the control plane: task 1 is the caller, task 2 another task with
  an empty context. In \<open>sys_holder\<close> both hold the secrecy privilege over tag 5, in
  \<open>sys_grantor\<close> only the caller does.
\<close>

definition empty_kstate :: kstate where
  "empty_kstate = \<lparr>heap = Map.empty, next_addr = 0, next_node_id = 0, alloc_plan = [],
     sink = [], current_prov = None\<rparr>"

definition sys_plain :: ifc_sys where
  "sys_plain = \<lparr>self_pid = 1, self_ifc = empty_context, others = [2 \<mapsto> Some empty_context],
     tag_counter = 41, prov = empty_kstate\<rparr>"

definition sys_holder :: ifc_sys where
  "sys_holder = sys_plain\<lparr>self_ifc := empty_context\<lparr>secrecy_p := [5]\<rparr>,
     others := [2 \<mapsto> Some (empty_context\<lparr>secrecy_p := [5]\<rparr>)]\<rparr>"

definition sys_grantor :: ifc_sys where
  "sys_grantor = sys_plain\<lparr>self_ifc := empty_context\<lparr>secrecy_p := [5]\<rparr>\<rparr>"

definition cfg0 :: ifc_config where
  "cfg0 = \<lparr>label_cap = 4, tag_msg_size = 24\<rparr>"

text \<open>
  Concrete states of the hooks. In \<open>ks_boot\<close> the calling task's credential has its
  record (identifier 1) at address 0 and a superblock has one at address 1;
  \<open>ks_inode\<close> adds the record of inode 7 at address 2, \<open>ks_tracked\<close> marks it tracked
  and adds a tracked socket record at address 3; \<open>ks_queue\<close> holds the caller, a
  recipient (identifier 3) and a message (identifier 9).
\<close>

definition task_node :: prov_msg where
  "task_node = (zero_node MSG_TASK)\<lparr>node_id := 1\<rparr>"

definition sb_node :: prov_msg where
  "sb_node = zero_node MSG_SB"

definition inode_node :: prov_msg where
  "inode_node = (zero_node MSG_INODE)\<lparr>node_id := 7\<rparr>"

definition ks_boot :: kstate where
  "ks_boot = \<lparr>heap = [0 \<mapsto> task_node, 1 \<mapsto> sb_node], next_addr = 2, next_node_id = 2,
     alloc_plan = [], sink = [], current_prov = Some 0\<rparr>"

definition ks_inode :: kstate where
  "ks_inode = ks_boot\<lparr>heap := [0 \<mapsto> task_node, 1 \<mapsto> sb_node, 2 \<mapsto> inode_node],
     next_addr := 3\<rparr>"


definition ks_queue :: kstate where
  "ks_queue = \<lparr>heap = [0 \<mapsto> task_node, 1 \<mapsto> (zero_node MSG_TASK)\<lparr>node_id := 3\<rparr>,
       2 \<mapsto> (zero_node MSG_MSG)\<lparr>node_id := 9\<rparr>],
     next_addr = 3, next_node_id = 10, alloc_plan = [], sink = [], current_prov = Some 0\<rparr>"

definition sb_a :: super_block where
  "sb_a = \<lparr>s_uuid = replicate 16 0, s_provenance = Some 1\<rparr>"

definition inode_bare :: inode where
  "inode_bare = \<lparr>i_ino = 7, i_uid = 0, i_gid = 0, i_mode = 0, i_private = False, i_sb = sb_a,
     i_provenance = None, i_ifc = Some empty_context\<rparr>"

definition inode_a :: inode where
  "inode_a = inode_bare\<lparr>i_provenance := Some 2\<rparr>"

definition file_bare :: struct_file where
  "file_bare = \<lparr>f_inode = inode_bare, f_path = ''/tmp/x''\<rparr>"


definition labelled_context :: ifc_context where
  "labelled_context = empty_context\<lparr>secrecy := [5]\<rparr>"

definition msg_labelled :: msg_msg where
  "msg_labelled = \<lparr>m_type = 1, msg_provenance = None, msg_ifc = Some labelled_context\<rparr>"

definition shm_labelled :: shmid_kernel where
  "shm_labelled = \<lparr>shm_perm_mode = 0, shm_provenance = None, shm_ifc = Some labelled_context\<rparr>"

definition cred_labelled :: cred where
  "cred_labelled = \<lparr>euid = 0, egid = 0, cred_provenance = None, cred_ifc = Some labelled_context\<rparr>"

definition blank_cred :: cred where
  "blank_cred = \<lparr>euid = 0, egid = 0, cred_provenance = None, cred_ifc = Some empty_context\<rparr>"

definition two_creds :: cred_sys where
  "two_creds = \<lparr>creds = [1 \<mapsto> blank_cred, 2 \<mapsto> blank_cred], ks = ks_boot\<rparr>"



definition msg_queued :: msg_msg where
  "msg_queued = \<lparr>m_type = 1, msg_provenance = Some 2, msg_ifc = Some empty_context\<rparr>"

definition recipient :: task_struct where
  "recipient = \<lparr>task_cred = \<lparr>euid = 0, egid = 0, cred_provenance = Some 1,
     cred_ifc = Some empty_context\<rparr>\<rparr>"

section \<open>Properties of the control plane\<close>

lemma label_of_set_label:
  "is_privilege_kind k \<Longrightarrow> label_of k (set_label k l c) = l"
  by (auto simp: is_privilege_kind_def label_of_def set_label_def)

lemma label_of_set_label_other:
  "k' \<noteq> k \<Longrightarrow> label_of k' (set_label k l c) = label_of k' c"
  by (cases k; cases k') (simp_all add: label_of_def set_label_def)

lemma context_from_pid_store:
  "context_from_pid (store_context s p c) p = Some c"
  by (simp add: context_from_pid_def find_task_by_vpid_def store_context_def)

lemma add_case_held:
  "ifc_contains_value l (tag msg) \<Longrightarrow>
   add_case cfg l oifc k msg s =
     (write_result cfg (fst (ifc_add_privilege (label_cap cfg) oifc k (tag msg))),
      store_context s (pid msg) (snd (ifc_add_privilege (label_cap cfg) oifc k (tag msg))))"
  by (simp add: add_case_def split: prod.splits)

lemma write_process_add:
  assumes "tag_msg_size cfg \<le> count" and "ifc_tag_valid (tag msg)"
    and "context_from_pid s (pid msg) = Some oifc"
    and "op msg = IFC_ADD_TAG" and "is_privilege_kind (tag_type msg)"
    and "ifc_contains_value (label_of (tag_type msg) (self_ifc s)) (tag msg)"
  shows "ifc_write_process cfg msg count s =
     (write_result cfg (fst (ifc_add_privilege (label_cap cfg) oifc (tag_type msg) (tag msg))),
      store_context s (pid msg) (snd (ifc_add_privilege (label_cap cfg) oifc (tag_type msg) (tag msg))))"
  using assms
  by (auto simp: ifc_write_process_def is_privilege_kind_def label_of_def add_case_held)

lemma write_process_unprivileged:
  assumes "tag_msg_size cfg \<le> count" and "ifc_tag_valid (tag msg)"
    and "context_from_pid s (pid msg) = Some oifc"
    and "is_privilege_kind (tag_type msg)"
    and "\<not> ifc_contains_value (label_of (tag_type msg) (self_ifc s)) (tag msg)"
  shows "ifc_write_process cfg msg count s
           = (if op msg = IFC_ADD_TAG then - EPERM else - EINVAL, s)"
  using assms
  by (auto simp: ifc_write_process_def add_case_def is_privilege_kind_def label_of_def
      write_result_def EINVAL_def)

lemma add_privilege_room:
  assumes "ifc_tag_valid t" and "is_privilege_kind k" and "length (label_of k c) < cap"
  shows "fst (ifc_add_privilege cap c k t) = 0"
    and "ifc_contains_value (label_of k (snd (ifc_add_privilege cap c k t))) t"
  using assms
  by (auto simp: ifc_add_privilege_def label_of_set_label ifc_contains_value_def)

lemma add_privilege_other:
  "k' \<noteq> k \<Longrightarrow> label_of k' (snd (ifc_add_privilege cap c k t)) = label_of k' c"
  by (simp add: ifc_add_privilege_def label_of_set_label_other)

lemma add_privilege_keeps:
  "is_privilege_kind k \<Longrightarrow> ifc_contains_value (label_of k' c) t' \<Longrightarrow>
   ifc_contains_value (label_of k' (snd (ifc_add_privilege cap c k t))) t'"
  by (cases "k' = k")
    (auto simp: ifc_add_privilege_def label_of_set_label_other label_of_set_label
      ifc_contains_value_def)

text \<open>
  C1, as the code has it. A cross-process request that is well formed (large enough,
  valid tag, existing target, privilege kind) and whose caller does not hold the
  matching privilege tag for the tag value fails, leaves the whole state as it was,
  the target's context included, and hands nothing to the log sink. The failure is
  \<^verbatim>\<open>-EPERM\<close> when the operation is an addition.
\<close>

theorem cross_process_gate:
  assumes "tag_msg_size cfg \<le> count"
    and "ifc_tag_valid (tag msg)"
    and "context_from_pid s (pid msg) = Some oifc"
    and "is_privilege_kind (tag_type msg)"
    and "\<not> ifc_contains_value (label_of (tag_type msg) (self_ifc s)) (tag msg)"
  shows "fst (ifc_write_process cfg msg count s) < 0
       \<and> snd (ifc_write_process cfg msg count s) = s
       \<and> context_from_pid (snd (ifc_write_process cfg msg count s)) (pid msg) = Some oifc
       \<and> sink (prov (snd (ifc_write_process cfg msg count s))) = sink (prov s)
       \<and> (op msg = IFC_ADD_TAG \<longrightarrow> fst (ifc_write_process cfg msg count s) = - EPERM)"
  using assms by (simp add: write_process_unprivileged EPERM_def EINVAL_def)

text \<open>
  Scenario 3 of the specification: the caller, without privilege over tag 9, tries to
  add it as a secrecy privilege to task 2.
\<close>

theorem cross_process_gate_witness:
  "fst (ifc_write_process cfg0
     \<lparr>op = IFC_ADD_TAG, tag_type = IFC_SECRECY_P, tag = 9, pid = 2\<rparr> 24 sys_plain) = - EPERM
   \<and> snd (ifc_write_process cfg0
     \<lparr>op = IFC_ADD_TAG, tag_type = IFC_SECRECY_P, tag = 9, pid = 2\<rparr> 24 sys_plain) = sys_plain"
  using cross_process_gate [of cfg0 24
      "\<lparr>op = IFC_ADD_TAG, tag_type = IFC_SECRECY_P, tag = 9, pid = 2\<rparr>" sys_plain empty_context]
  by (simp add: sys_plain_def cfg0_def ifc_tag_valid_def context_from_pid_def
      find_task_by_vpid_def is_privilege_kind_def ifc_contains_value_def label_of_def
      empty_context_def)

text \<open>
  C1 as stated fails on a removal: the caller lacks the privilege over tag 9, and the
  request to remove it from task 2 is answered with \<^verbatim>\<open>-EINVAL\<close>, not \<^verbatim>\<open>-EPERM\<close>.
\<close>

theorem cross_process_gate_counterexample:
  "\<not> ifc_contains_value (secrecy_p (self_ifc sys_plain)) 9 \<and>
   fst (ifc_write_process cfg0
     \<lparr>op = IFC_REMOVE_TAG, tag_type = IFC_SECRECY_P, tag = 9, pid = 2\<rparr> 24 sys_plain) = - EINVAL \<and>
   - EINVAL \<noteq> - EPERM"
  by (simp add: sys_plain_def cfg0_def ifc_write_process_def ifc_tag_valid_def
      context_from_pid_def find_task_by_vpid_def ifc_contains_value_def empty_context_def
      write_result_def EINVAL_def EPERM_def)

text \<open>
  C7, as the code has it. For a request that is large enough and carries a valid tag:
  when the lookup by process identifier finds no context the call fails with
  \<^verbatim>\<open>-EINVAL\<close> and changes nothing; an addition of a privilege kind whose matching
  privilege tag the caller holds is applied to the target's context (the context found
  under the identifier afterwards is the one \<^verbatim>\<open>ifc_add_privilege\<close> produced) and the
  call returns what the addition returned, the size of the message when the target's
  label has room.
\<close>

theorem cross_process_mutate:
  assumes "tag_msg_size cfg \<le> count" and "ifc_tag_valid (tag msg)"
  shows "(context_from_pid s (pid msg) = None \<longrightarrow>
            ifc_write_process cfg msg count s = (- EINVAL, s))
       \<and> (\<forall>oifc. context_from_pid s (pid msg) = Some oifc \<and> op msg = IFC_ADD_TAG
              \<and> is_privilege_kind (tag_type msg)
              \<and> ifc_contains_value (label_of (tag_type msg) (self_ifc s)) (tag msg) \<longrightarrow>
            (let r = ifc_add_privilege (label_cap cfg) oifc (tag_type msg) (tag msg);
                 res = ifc_write_process cfg msg count s
             in res = (write_result cfg (fst r), store_context s (pid msg) (snd r))
              \<and> context_from_pid (snd res) (pid msg) = Some (snd r)
              \<and> (length (label_of (tag_type msg) oifc) < label_cap cfg \<longrightarrow>
                   fst res = int (tag_msg_size cfg)
                 \<and> ifc_contains_value (label_of (tag_type msg) (snd r)) (tag msg))))"
proof (intro conjI allI impI)
  assume "context_from_pid s (pid msg) = None"
  with assms show "ifc_write_process cfg msg count s = (- EINVAL, s)"
    by (simp add: ifc_write_process_def)
next
  fix oifc
  assume h: "context_from_pid s (pid msg) = Some oifc \<and> op msg = IFC_ADD_TAG
              \<and> is_privilege_kind (tag_type msg)
              \<and> ifc_contains_value (label_of (tag_type msg) (self_ifc s)) (tag msg)"
  let ?r = "ifc_add_privilege (label_cap cfg) oifc (tag_type msg) (tag msg)"
  have eq: "ifc_write_process cfg msg count s
      = (write_result cfg (fst ?r), store_context s (pid msg) (snd ?r))"
    using assms h by (simp add: write_process_add)
  have room: "length (label_of (tag_type msg) oifc) < label_cap cfg \<longrightarrow>
       write_result cfg (fst ?r) = int (tag_msg_size cfg)
     \<and> ifc_contains_value (label_of (tag_type msg) (snd ?r)) (tag msg)"
    using assms h by (simp add: add_privilege_room write_result_def)
  show "let r = ?r; res = ifc_write_process cfg msg count s
        in res = (write_result cfg (fst r), store_context s (pid msg) (snd r))
              \<and> context_from_pid (snd res) (pid msg) = Some (snd r)
              \<and> (length (label_of (tag_type msg) oifc) < label_cap cfg \<longrightarrow>
                   fst res = int (tag_msg_size cfg)
                 \<and> ifc_contains_value (label_of (tag_type msg) (snd r)) (tag msg))"
    using room by (simp add: Let_def eq context_from_pid_store)
qed

text \<open>
  The two cases at concrete inputs: there is no task 3; the caller, holding the secrecy
  privilege over tag 5, adds it to task 2.
\<close>

theorem cross_process_mutate_witness:
  "ifc_write_process cfg0
     \<lparr>op = IFC_ADD_TAG, tag_type = IFC_SECRECY_P, tag = 5, pid = 3\<rparr> 24 sys_holder
     = (- EINVAL, sys_holder)
   \<and> ifc_write_process cfg0
     \<lparr>op = IFC_ADD_TAG, tag_type = IFC_SECRECY_P, tag = 5, pid = 2\<rparr> 24 sys_grantor
     = (24, store_context sys_grantor 2 (empty_context\<lparr>secrecy_p := [5]\<rparr>))"
proof -
  have valid: "ifc_tag_valid 5" by (simp add: ifc_tag_valid_def)
  have a: "context_from_pid sys_holder 3 = None"
    by (simp add: sys_holder_def sys_plain_def context_from_pid_def find_task_by_vpid_def)
  have c: "context_from_pid sys_grantor 2 = Some empty_context"
    by (simp add: sys_grantor_def sys_plain_def context_from_pid_def find_task_by_vpid_def)
  have held: "ifc_contains_value (label_of IFC_SECRECY_P (self_ifc sys_grantor)) 5"
    by (simp add: sys_grantor_def sys_plain_def ifc_contains_value_def label_of_def)
  have room: "length (label_of IFC_SECRECY_P empty_context) < 4"
    by (simp add: label_of_def empty_context_def)
  have r: "snd (ifc_add_privilege 4 empty_context IFC_SECRECY_P 5)
      = empty_context\<lparr>secrecy_p := [5]\<rparr>"
    by (simp add: ifc_add_privilege_def valid ifc_contains_value_def label_of_def
        set_label_def empty_context_def)
  have r0: "fst (ifc_add_privilege 4 empty_context IFC_SECRECY_P 5) = 0"
    by (simp add: ifc_add_privilege_def valid ifc_contains_value_def label_of_def
        empty_context_def)
  from cross_process_mutate [of cfg0 24
      "\<lparr>op = IFC_ADD_TAG, tag_type = IFC_SECRECY_P, tag = 5, pid = 3\<rparr>" sys_holder] valid a
  have 1: "ifc_write_process cfg0
      \<lparr>op = IFC_ADD_TAG, tag_type = IFC_SECRECY_P, tag = 5, pid = 3\<rparr> 24 sys_holder
      = (- EINVAL, sys_holder)"
    by (simp add: cfg0_def)
  from cross_process_mutate [of cfg0 24
      "\<lparr>op = IFC_ADD_TAG, tag_type = IFC_SECRECY_P, tag = 5, pid = 2\<rparr>" sys_grantor]
    valid c held room
  have 2: "ifc_write_process cfg0
      \<lparr>op = IFC_ADD_TAG, tag_type = IFC_SECRECY_P, tag = 5, pid = 2\<rparr> 24 sys_grantor
      = (24, store_context sys_grantor 2 (empty_context\<lparr>secrecy_p := [5]\<rparr>))"
    by (simp add: cfg0_def is_privilege_kind_def Let_def r r0 write_result_def)
  from 1 2 show ?thesis by simp
qed

text \<open>
  C7 as stated fails on a removal: the caller holds the secrecy privilege over tag 5,
  task 2 exists and holds it too, and the request to remove it from task 2 is answered
  with \<^verbatim>\<open>-EINVAL\<close>; the state, task 2's context included, is as before.
\<close>

theorem cross_process_mutate_counterexample:
  "ifc_contains_value (secrecy_p (self_ifc sys_holder)) 5 \<and>
   context_from_pid sys_holder 2 = Some (empty_context\<lparr>secrecy_p := [5]\<rparr>) \<and>
   ifc_write_process cfg0
     \<lparr>op = IFC_REMOVE_TAG, tag_type = IFC_SECRECY_P, tag = 5, pid = 2\<rparr> 24 sys_holder
     = (- EINVAL, sys_holder)"
  by (simp add: sys_holder_def sys_plain_def cfg0_def ifc_write_process_def ifc_tag_valid_def
      context_from_pid_def find_task_by_vpid_def ifc_contains_value_def empty_context_def
      write_result_def EINVAL_def)

text \<open>
  C10. In \<^verbatim>\<open>ifc_read_tag\<close> the four privilege grants are made before the tag is copied
  to the caller. When the request is large enough, the fresh tag is valid, the four
  privilege labels of the caller have room and the copy fails, the endpoint returns
  \<^verbatim>\<open>-EAGAIN\<close>, the caller's buffer has received no tag, the counter has advanced, and
  the caller's context holds the tag in all four privilege labels.
\<close>

theorem mint_copy_failure:
  assumes cnt: "sizeof_tag_t \<le> count"
    and copy: "copy_to_user buf sizeof_tag_t \<noteq> 0"
    and valid: "ifc_tag_valid (tag_counter s + 1)"
    and room: "\<forall>k. is_privilege_kind k \<longrightarrow> length (label_of k (self_ifc s)) < label_cap cfg"
  shows "fst (ifc_read_tag cfg buf count s) = - EAGAIN
       \<and> fst (snd (ifc_read_tag cfg buf count s)) = None
       \<and> tag_counter (snd (snd (ifc_read_tag cfg buf count s))) = tag_counter s + 1
       \<and> (\<forall>k. is_privilege_kind k \<longrightarrow>
            ifc_contains_value
              (label_of k (self_ifc (snd (snd (ifc_read_tag cfg buf count s)))))
              (tag_counter s + 1))"
proof -
  let ?t = "tag_counter s + 1"
  let ?cap = "label_cap cfg"
  define a1 where "a1 = ifc_add_privilege ?cap (self_ifc s) IFC_SECRECY_P ?t"
  define a2 where "a2 = ifc_add_privilege ?cap (snd a1) IFC_INTEGRITY_P ?t"
  define a3 where "a3 = ifc_add_privilege ?cap (snd a2) IFC_SECRECY_N ?t"
  define a4 where "a4 = ifc_add_privilege ?cap (snd a3) IFC_INTEGRITY_N ?t"
  have pk: "is_privilege_kind IFC_SECRECY_P" "is_privilege_kind IFC_INTEGRITY_P"
    "is_privilege_kind IFC_SECRECY_N" "is_privilege_kind IFC_INTEGRITY_N"
    by (simp_all add: is_privilege_kind_def)
  have r1: "fst a1 = 0" and h1: "ifc_contains_value (label_of IFC_SECRECY_P (snd a1)) ?t"
    unfolding a1_def using valid pk(1) room by (simp_all add: add_privilege_room)
  have "length (label_of IFC_INTEGRITY_P (snd a1)) < ?cap"
    unfolding a1_def using room pk(2) by (simp add: add_privilege_other)
  then have r2: "fst a2 = 0" and h2: "ifc_contains_value (label_of IFC_INTEGRITY_P (snd a2)) ?t"
    unfolding a2_def using valid pk(2) by (simp_all add: add_privilege_room)
  have "length (label_of IFC_SECRECY_N (snd a2)) < ?cap"
    unfolding a2_def a1_def using room pk(3) by (simp add: add_privilege_other)
  then have r3: "fst a3 = 0" and h3: "ifc_contains_value (label_of IFC_SECRECY_N (snd a3)) ?t"
    unfolding a3_def using valid pk(3) by (simp_all add: add_privilege_room)
  have "length (label_of IFC_INTEGRITY_N (snd a3)) < ?cap"
    unfolding a3_def a2_def a1_def using room pk(4) by (simp add: add_privilege_other)
  then have r4: "fst a4 = 0" and h4: "ifc_contains_value (label_of IFC_INTEGRITY_N (snd a4)) ?t"
    unfolding a4_def using valid pk(4) by (simp_all add: add_privilege_room)
  have res: "ifc_read_tag cfg buf count s
      = (- EAGAIN, None, s\<lparr>tag_counter := ?t, self_ifc := snd a4\<rparr>)"
    using cnt copy r1 r2 r3 r4
    by (simp add: ifc_read_tag_def ifc_create_tag_def Let_def case_prod_beta
        a1_def [symmetric] a2_def [symmetric] a3_def [symmetric] a4_def [symmetric])
  have g1: "ifc_contains_value (label_of IFC_SECRECY_P (snd a4)) ?t"
    unfolding a4_def a3_def a2_def using h1 pk by (intro add_privilege_keeps)
  have g2: "ifc_contains_value (label_of IFC_INTEGRITY_P (snd a4)) ?t"
    unfolding a4_def a3_def using h2 pk by (intro add_privilege_keeps)
  have g3: "ifc_contains_value (label_of IFC_SECRECY_N (snd a4)) ?t"
    unfolding a4_def using h3 pk by (intro add_privilege_keeps)
  from g1 g2 g3 h4 have "\<forall>k. is_privilege_kind k \<longrightarrow>
      ifc_contains_value (label_of k (snd a4)) ?t"
    by (auto simp: is_privilege_kind_def)
  then show ?thesis by (simp add: res)
qed

text \<open>
  The caller asks for a tag with a buffer that cannot be written: tag 42 is minted and
  granted, and the caller gets \<^verbatim>\<open>-EAGAIN\<close>.
\<close>

theorem mint_copy_failure_witness:
  "ifc_read_tag cfg0 0 8 sys_plain
     = (- EAGAIN, None, sys_plain\<lparr>tag_counter := 42,
          self_ifc := \<lparr>secrecy = [], integrity = [], secrecy_p = [42], integrity_p = [42],
             secrecy_n = [42], integrity_n = [42]\<rparr>\<rparr>)"
proof -
  have "fst (ifc_read_tag cfg0 0 8 sys_plain) = - EAGAIN"
    using mint_copy_failure [of 8 0 sys_plain cfg0]
    by (simp add: sys_plain_def cfg0_def sizeof_tag_t_def copy_to_user_def ifc_tag_valid_def
        label_of_def empty_context_def is_privilege_kind_def)
  moreover have "snd (ifc_read_tag cfg0 0 8 sys_plain)
     = (None, sys_plain\<lparr>tag_counter := 42,
          self_ifc := \<lparr>secrecy = [], integrity = [], secrecy_p = [42], integrity_p = [42],
             secrecy_n = [42], integrity_n = [42]\<rparr>\<rparr>)"
    by (simp add: ifc_read_tag_def ifc_create_tag_def sys_plain_def cfg0_def sizeof_tag_t_def
        ifc_add_privilege_def ifc_tag_valid_def ifc_contains_value_def label_of_def
        set_label_def empty_context_def copy_to_user_def)
  ultimately show ?thesis by (simp add: prod_eq_iff)
qed

section \<open>Properties of the hooks\<close>

lemmas prim_defs = alloc_provenance_def mem_alloc_def set_node_id_def update_node_def
  record_edge_def deref_def track_if_labelled_def ifc_is_labelled_def prov_record_ifc_def
  zero_node_def FLOW_ALLOWED_def NODE_TRACKED_def

subsection \<open>Return values\<close>

text \<open>
  For each hook of the table, the states in which it returns and the value it returns
  there. The primitives first: an edge is recorded when both its ends are allocated, a
  record is updated when it is allocated, and neither frees nor allocates a record.
\<close>

lemmas live_defs = live_def live_new_def deref_def









lemma record_edge_None:
  "record_edge ty p q fl s = None \<longleftrightarrow> \<not> (live s p \<and> live s q)"
  by (auto simp: record_edge_def live_def split: option.splits)

lemma record_edge_live:
  "record_edge ty p q fl s = Some s' \<Longrightarrow> live s' = live s \<and> current_prov s' = current_prov s"
  by (auto simp: record_edge_def live_defs fun_eq_iff split: option.splits)



















































subsection \<open>Freeing and allocating records\<close>

lemma inode_free_present:
  "i_provenance inode = Some a \<Longrightarrow>
   provenance_inode_free_security inode s = (inode\<lparr>i_provenance := None\<rparr>, s)"
  by (simp add: provenance_inode_free_security_def)

lemma inode_free_absent:
  "i_provenance inode = None \<Longrightarrow>
   provenance_inode_free_security inode s = (inode\<lparr>i_provenance := None\<rparr>, s)"
  by (simp add: provenance_inode_free_security_def free_provenance_def)

text \<open>
  What holds of these hooks on every input: \<^verbatim>\<open>provenance_mmap_file\<close> never moves the
  allocation mark and returns only if the inode's record is there; the record that
  \<^verbatim>\<open>provenance_msg_msg_alloc_security\<close> or \<^verbatim>\<open>provenance_shm_alloc_security\<close> attaches is
  never tracked and never holds a snapshot.
\<close>

lemma update_node_mark:
  "update_node p f s = Some s' \<Longrightarrow> next_addr s' = next_addr s"
  by (auto simp: update_node_def split: option.splits)

lemma record_edge_mark:
  "record_edge ty a b fl s = Some s' \<Longrightarrow> next_addr s' = next_addr s"
  by (auto simp: record_edge_def split: option.splits)

lemma record_file_name_mark:
  "provenance_record_file_name filp s = Some s' \<Longrightarrow> next_addr s' = next_addr s"
  by (auto simp: provenance_record_file_name_def long_record_edge_def long_prov_write_def
      mem_alloc_def Let_def
      dest!: update_node_mark
      split: option.splits if_splits prod.splits list.splits Option.bind_splits)

lemma mmap_file_never_allocates:
  assumes "provenance_mmap_file filp rp p fl s = Some (rv, s')"
  shows "next_addr s' = next_addr s"
  using assms
  by (auto simp: provenance_mmap_file_def Let_def
      dest!: record_file_name_mark record_edge_mark
      split: option.splits if_splits Option.bind_splits)

lemma mmap_file_needs_node:
  assumes "provenance_mmap_file (Some filp) rp p fl s = Some (rv, s')"
  shows "deref s (i_provenance (f_inode filp)) \<noteq> None"
  using assms
  by (auto simp: provenance_mmap_file_def provenance_record_file_name_def Let_def
      split: option.splits if_splits Option.bind_splits)

lemma msg_alloc_never_tracked:
  assumes "provenance_msg_msg_alloc_security msg s = Some (0, msg', s')"
  shows "msg_ifc msg \<noteq> None
     \<and> map_option tracked (deref s' (msg_provenance msg')) = Some False
     \<and> map_option ifc_meta (deref s' (msg_provenance msg')) = Some None"
  using assms
  by (auto simp: provenance_msg_msg_alloc_security_def Let_def alloc_provenance_def mem_alloc_def
      set_node_id_def update_node_def record_edge_def deref_def zero_node_def
      track_if_labelled_def ifc_is_labelled_def ENOMEM_def
      split: option.splits if_splits prod.splits list.splits Option.bind_splits)

lemma shm_alloc_never_tracked:
  assumes "provenance_shm_alloc_security shp s = Some (0, shp', s')"
  shows "shm_ifc shp \<noteq> None
     \<and> map_option tracked (deref s' (shm_provenance shp')) = Some False
     \<and> map_option ifc_meta (deref s' (shm_provenance shp')) = Some None"
  using assms
  by (auto simp: provenance_shm_alloc_security_def Let_def alloc_provenance_def mem_alloc_def
      set_node_id_def update_node_def record_edge_def deref_def zero_node_def
      track_if_labelled_def ifc_is_labelled_def ENOMEM_def
      split: option.splits if_splits prod.splits list.splits Option.bind_splits)

text \<open>
  C3, evaluated where the code departs from it. The inode's record is present, at
  address 2. \<^verbatim>\<open>provenance_inode_free_security\<close> clears the inode's pointer and leaves
  the state as it was: the record is still allocated, \<^verbatim>\<open>free_provenance\<close> was not
  called on it. The test before the call is \<^verbatim>\<open>if(!prov)\<close>.
\<close>

theorem inode_free_leaks:
  "provenance_inode_free_security inode_a ks_inode = (inode_a\<lparr>i_provenance := None\<rparr>, ks_inode)
   \<and> i_provenance inode_a = Some 2 \<and> heap ks_inode 2 = Some inode_node"
  by (simp add: provenance_inode_free_security_def inode_a_def ks_inode_def)

text \<open>
  C4, evaluated where the code departs from it. A message and a shared-memory segment
  carry a labelled context; the record allocated for each is not marked tracked and
  holds no snapshot of the tag sets, because the block that does both is entered under
  \<^verbatim>\<open>if(!ifc)\<close>. \<^verbatim>\<open>provenance_cred_prepare\<close>, on a credential with the same context,
  marks the record tracked and takes the snapshot.
\<close>

theorem alloc_labelled_untracked:
  "ifc_is_labelled (msg_ifc msg_labelled) = Some True
   \<and> map_option (\<lambda>(rv, m, s). (rv, msg_provenance m, map_option tracked (heap s 2),
         map_option ifc_meta (heap s 2)))
       (provenance_msg_msg_alloc_security msg_labelled ks_boot)
       = Some (0, Some 2, Some False, Some None)
   \<and> ifc_is_labelled (shm_ifc shm_labelled) = Some True
   \<and> map_option (\<lambda>(rv, m, s). (rv, shm_provenance m, map_option tracked (heap s 2),
         map_option ifc_meta (heap s 2)))
       (provenance_shm_alloc_security shm_labelled ks_boot)
       = Some (0, Some 2, Some False, Some None)
   \<and> ifc_is_labelled (cred_ifc cred_labelled) = Some True
   \<and> map_option (\<lambda>(rv, m, s). (rv, cred_provenance m, map_option tracked (heap s 2),
         map_option ifc_meta (heap s 2)))
       (provenance_cred_prepare cred_labelled (cred_labelled\<lparr>cred_provenance := Some 0\<rparr>)
          GFP_KERNEL ks_boot)
       = Some (0, Some 2, Some True, Some (Some labelled_context))"
  by (simp add: provenance_msg_msg_alloc_security_def provenance_shm_alloc_security_def
      provenance_cred_prepare_def msg_labelled_def shm_labelled_def cred_labelled_def
      ks_boot_def prim_defs labelled_context_def empty_context_def task_node_def)

text \<open>
  C6, evaluated where the code departs from it. The file's inode has no record.
  \<^verbatim>\<open>provenance_mmap_file\<close> does not allocate one: it goes on to read the flags of the
  missing record and does not return. \<^verbatim>\<open>provenance_file_open\<close>, on the same file and
  state, allocates the record at address 2 and records its edges against it.
\<close>

theorem mmap_no_repair:
  "i_provenance (f_inode file_bare) = None
   \<and> provenance_mmap_file (Some file_bare) 0 PROT_READ 0 ks_boot = None
   \<and> map_option (\<lambda>(rv, f, s). (rv, i_provenance (f_inode f), sink s))
       (provenance_file_open file_bare blank_cred ks_boot)
       = Some (0, Some 2, [Edge ED_CREATE 1 7 True, Edge ED_OPEN 7 1 True])"
  by (simp add: provenance_mmap_file_def provenance_file_open_def provenance_record_file_name_def
      alloc_if_missing_def provenance_inode_alloc_security_def file_bare_def inode_bare_def
      sb_a_def ks_boot_def prim_defs empty_context_def task_node_def sb_node_def)

subsection \<open>Name and address capture\<close>















subsection \<open>Node identifiers of credentials\<close>

lemma cred_alloc_blank_effect:
  assumes "provenance_cred_alloc_blank c g s = Some (rv, c', s')"
  shows "fresh_effect c s c' s'"
  using assms
  by (auto simp: provenance_cred_alloc_blank_def fresh_effect_def alloc_provenance_def
      mem_alloc_def set_node_id_def update_node_def
      split: list.splits if_splits prod.splits option.splits Option.bind_splits)

lemma cred_prepare_effect:
  assumes "provenance_cred_prepare c old g s = Some (rv, c', s')"
  shows "fresh_effect c s c' s'"
  using assms
  by (auto simp: provenance_cred_prepare_def fresh_effect_def alloc_provenance_def
      mem_alloc_def set_node_id_def update_node_def track_if_labelled_def prov_record_ifc_def
      record_edge_def Let_def
      split: list.splits if_splits prod.splits option.splits Option.bind_splits)

lemma fresh_effect_inv:
  assumes inv: "cred_inv cs" and c: "creds cs i = Some c"
    and eff: "fresh_effect c (ks cs) c' s'"
  shows "cred_inv \<lparr>creds = (creds cs)(i \<mapsto> c'), ks = s'\<rparr>"
  using eff unfolding fresh_effect_def
proof (elim disjE conjE exE)
  assume "c' = c" "heap s' = heap (ks cs)" "next_addr s' = next_addr (ks cs)"
    "next_node_id s' = next_node_id (ks cs)"
  moreover from c have "(creds cs)(i \<mapsto> c) = creds cs" by (rule map_upd_triv)
  ultimately show ?thesis using inv by (simp add: cred_inv_def prov_of_def)
next
  fix n
  assume c': "c' = c\<lparr>cred_provenance := Some (next_addr (ks cs))\<rparr>"
    and na: "next_addr s' = Suc (next_addr (ks cs))"
    and ni: "next_node_id s' = Suc (next_node_id (ks cs))"
    and h: "heap s' = (heap (ks cs))(next_addr (ks cs) \<mapsto> n)"
    and n: "node_id n = next_node_id (ks cs)"
  let ?cs' = "\<lparr>creds = (creds cs)(i \<mapsto> c'), ks = s'\<rparr>"
  have p: "prov_of ?cs' k = (if k = i then Some (next_addr (ks cs)) else prov_of cs k)" for k
    by (simp add: prov_of_def c')
  from inv have old: "prov_of cs k = Some a \<Longrightarrow>
      a < next_addr (ks cs) \<and> (\<exists>m. heap (ks cs) a = Some m \<and> node_id m < next_node_id (ks cs))"
    for k a by (simp add: cred_inv_def)
  from inv have distinct: "k \<noteq> l \<Longrightarrow> prov_of cs k = Some a \<Longrightarrow> prov_of cs l = Some b \<Longrightarrow>
      heap (ks cs) a = Some x \<Longrightarrow> heap (ks cs) b = Some y \<Longrightarrow> node_id x \<noteq> node_id y"
    for k l a b x y unfolding cred_inv_def by blast
  have A: "a < next_addr s' \<and> (\<exists>m. heap s' a = Some m \<and> node_id m < next_node_id s')"
    if "prov_of ?cs' k = Some a" for k a
    using that old [of k a] n by (auto simp: p na ni h split: if_splits)
  have B: "node_id x \<noteq> node_id y"
    if "k \<noteq> l" "prov_of ?cs' k = Some a" "prov_of ?cs' l = Some b"
      "heap s' a = Some x" "heap s' b = Some y" for k l a b x y
    using that old [of k a] old [of l b] distinct [of k l a b x y] n
    by (auto simp: p h split: if_splits)
  show ?thesis
    unfolding cred_inv_def using A B by simp blast
qed

lemma cred_step_inv:
  assumes "cred_inv cs" and "\<not> is_transfer x" and "cred_step x cs = Some cs'"
  shows "cred_inv cs'"
proof (cases x)
  case (Alloc_blank i g)
  with assms(3) obtain c rv c' s' where c: "creds cs i = Some c"
    and r: "provenance_cred_alloc_blank c g (ks cs) = Some (rv, c', s')"
    and cs': "cs' = \<lparr>creds = (creds cs)(i \<mapsto> c'), ks = s'\<rparr>"
    by (auto split: option.splits)
  from fresh_effect_inv [OF assms(1) c cred_alloc_blank_effect [OF r]] cs'
  show ?thesis by simp
next
  case (Prepare i j g)
  with assms(3) obtain c old rv c' s' where c: "creds cs i = Some c"
    and r: "provenance_cred_prepare c old g (ks cs) = Some (rv, c', s')"
    and cs': "cs' = \<lparr>creds = (creds cs)(i \<mapsto> c'), ks = s'\<rparr>"
    by (auto split: option.splits)
  from fresh_effect_inv [OF assms(1) c cred_prepare_effect [OF r]] cs'
  show ?thesis by simp
next
  case (Transfer i j)
  with assms(2) show ?thesis by simp
qed

lemma cred_run_inv:
  "cred_inv cs \<Longrightarrow> \<forall>x \<in> set ops. \<not> is_transfer x \<Longrightarrow> cred_run ops cs = Some cs' \<Longrightarrow>
   cred_inv cs'"
proof (induction ops arbitrary: cs)
  case Nil
  then show ?case by simp
next
  case (Cons x xs)
  from Cons.prems(3) obtain cs1 where s: "cred_step x cs = Some cs1"
    and r: "cred_run xs cs1 = Some cs'"
    by (auto split: option.splits)
  from Cons.prems(1,2) s have "cred_inv cs1" by (auto intro: cred_step_inv)
  with Cons.IH [of cs1] Cons.prems(2) r show ?case by simp
qed

lemma cred_inv_unique:
  assumes "cred_inv cs" and "i \<noteq> j"
    and "cred_node_id cs i = Some x" and "cred_node_id cs j = Some y"
  shows "x \<noteq> y"
  using assms unfolding cred_inv_def cred_node_id_def prov_of_def deref_def
  apply (clarsimp split: option.splits)
  apply blast
  done

lemma transfer_shares:
  assumes "cred_step (Transfer i j) cs = Some cs'"
  shows "cred_node_id cs' i = cred_node_id cs j \<and> cred_node_id cs' j = cred_node_id cs j
     \<and> cred_node_id cs j \<noteq> None"
  using assms
  by (auto simp: provenance_cred_transfer_def update_node_def deref_def cred_node_id_def
      split: option.splits)

text \<open>
  C8, as the code has it. From a system of credentials in which the records of
  different credentials carry different identifiers, taken from the generator, every
  sequence of allocate-blank and prepare operations that returns leads to a system in
  which the records of two different credentials carry different identifiers. A
  transfer copies the whole record of the old credential, its identifier included, into
  the record of the new one: after it the two credentials carry the same identifier.
\<close>

theorem cred_node_ids:
  "(cred_inv cs \<and> (\<forall>x \<in> set ops. \<not> is_transfer x) \<and> cred_run ops cs = Some cs'
      \<and> i \<noteq> j \<and> cred_node_id cs' i = Some x \<and> cred_node_id cs' j = Some y \<longrightarrow> x \<noteq> y)
   \<and> (cred_step (Transfer i j) cs = Some cs' \<longrightarrow>
        cred_node_id cs' i = cred_node_id cs j \<and> cred_node_id cs' j = cred_node_id cs j
        \<and> cred_node_id cs j \<noteq> None)"
  using cred_run_inv [of cs ops cs'] cred_inv_unique [of cs' i j x y] transfer_shares [of i j cs cs']
  by blast

text \<open>
  Two credentials without records: credential 1 is allocated blank, credential 2 is
  prepared from it, and they get the identifiers 2 and 3; a transfer from 1 to 2 then
  gives credential 2 the identifier of credential 1.
\<close>

theorem cred_node_ids_witness:
  "\<exists>cs'. cred_run [Alloc_blank 1 GFP_KERNEL, Prepare 2 1 GFP_KERNEL] two_creds = Some cs'
     \<and> cred_node_id cs' 1 = Some 2 \<and> cred_node_id cs' 2 = Some 3 \<and> (2::nat) \<noteq> 3
     \<and> (\<exists>cs''. cred_step (Transfer 2 1) cs' = Some cs''
          \<and> cred_node_id cs'' 2 = cred_node_id cs' 1)"
proof -
  let ?ops = "[Alloc_blank 1 GFP_KERNEL, Prepare 2 1 GFP_KERNEL]"
  have inv: "cred_inv two_creds"
    by (auto simp: cred_inv_def prov_of_def two_creds_def blank_cred_def split: if_splits)
  have ops: "\<forall>x \<in> set ?ops. \<not> is_transfer x" by simp
  have "\<exists>cs'. cred_run ?ops two_creds = Some cs'
     \<and> cred_node_id cs' 1 = Some 2 \<and> cred_node_id cs' 2 = Some 3
     \<and> (\<exists>cs''. cred_step (Transfer 2 1) cs' = Some cs'')"
    by (simp add: two_creds_def blank_cred_def ks_boot_def provenance_cred_alloc_blank_def
        provenance_cred_prepare_def provenance_cred_transfer_def cred_node_id_def prim_defs
        empty_context_def)
  then obtain cs' cs'' where run: "cred_run ?ops two_creds = Some cs'"
    and id1: "cred_node_id cs' 1 = Some 2" and id2: "cred_node_id cs' 2 = Some 3"
    and tr: "cred_step (Transfer 2 1) cs' = Some cs''"
    by blast
  have ne: "(1::nat) \<noteq> 2" by simp
  have sep: "(2::nat) \<noteq> 3"
    using cred_node_ids [of two_creds ?ops cs' 1 2 2 3] inv ops run id1 id2 ne by blast
  have share: "cred_node_id cs'' 2 = cred_node_id cs' 1"
    using cred_node_ids [where cs = cs' and cs' = cs'' and i = 2 and j = 1] tr by blast
  show ?thesis
    by (rule exI [of _ cs'], intro conjI, fact run, fact id1, fact id2, fact sep,
        rule exI [of _ cs''], intro conjI, fact tr, fact share)
qed

text \<open>
  C8 as stated fails on a transfer: two credentials are allocated blank, with the
  identifiers 2 and 3; after the transfer from credential 1 to credential 2 both
  records carry the identifier 2.
\<close>

theorem cred_node_ids_counterexample:
  "map_option (\<lambda>cs. (cred_node_id cs 1, cred_node_id cs 2))
     (cred_run [Alloc_blank 1 GFP_KERNEL, Alloc_blank 2 GFP_KERNEL, Transfer 2 1] two_creds)
   = Some (Some 2, Some 2)"
  by (simp add: two_creds_def blank_cred_def ks_boot_def provenance_cred_alloc_blank_def
      provenance_cred_transfer_def cred_node_id_def prim_defs)

subsection \<open>Message queues\<close>

text \<open>
  C9. With the message's record present: on receive, when the record of the target
  task's credential is present, the hook returns 0 and hands the sink one edge,
  \<open>ED_READ\<close> from the message's node to the node of the target's credential, whatever
  the calling task's record is (\<open>p\<close>); on send, when the caller's record is present, it
  returns 0 and hands the sink one edge, \<open>ED_WRITE\<close> from the caller's node to the
  message's node.
\<close>

theorem msg_queue_edges:
  assumes "deref s (msg_provenance msg) = Some m"
  shows "(\<forall>t p. deref s (cred_provenance (task_cred target)) = Some t \<longrightarrow>
            provenance_msg_queue_msgrcv msq msg target ty md (s\<lparr>current_prov := p\<rparr>)
              = Some (0, s\<lparr>current_prov := p,
                   sink := sink s @ [Edge ED_READ (node_id m) (node_id t) FLOW_ALLOWED]\<rparr>))
       \<and> (\<forall>c. deref s (current_prov s) = Some c \<longrightarrow>
            provenance_msg_queue_msgsnd msq msg msqflg s
              = Some (0, s\<lparr>sink := sink s @ [Edge ED_WRITE (node_id c) (node_id m) FLOW_ALLOWED]\<rparr>))"
  using assms
  by (auto simp: provenance_msg_queue_msgrcv_def provenance_msg_queue_msgsnd_def record_edge_def
      deref_def split: option.splits)

text \<open>
  The caller has node 1, the recipient node 3, the message node 9: the receive is
  recorded as a read by node 3, the send as a write by node 1.
\<close>

theorem msg_queue_edges_witness:
  "map_option (\<lambda>(rv, s). (rv, sink s))
       (provenance_msg_queue_msgrcv () msg_queued recipient 0 0 ks_queue)
     = Some (0, [Edge ED_READ 9 3 True])
   \<and> map_option (\<lambda>(rv, s). (rv, sink s)) (provenance_msg_queue_msgsnd () msg_queued 0 ks_queue)
     = Some (0, [Edge ED_WRITE 1 9 True])"
proof -
  have m: "deref ks_queue (msg_provenance msg_queued) = Some ((zero_node MSG_MSG)\<lparr>node_id := 9\<rparr>)"
    by (simp add: deref_def ks_queue_def msg_queued_def)
  have t: "deref ks_queue (cred_provenance (task_cred recipient))
      = Some ((zero_node MSG_TASK)\<lparr>node_id := 3\<rparr>)"
    by (simp add: deref_def ks_queue_def recipient_def)
  have c: "deref ks_queue (current_prov ks_queue) = Some task_node"
    by (simp add: deref_def ks_queue_def)
  have cur: "ks_queue\<lparr>current_prov := Some 0\<rparr> = ks_queue"
    by (simp add: ks_queue_def)
  from msg_queue_edges [OF m, of recipient "()" 0 0 0] t c cur
  show ?thesis
    by (auto simp: FLOW_ALLOWED_def task_node_def ks_queue_def)
qed

end
